theory Spec2Isabelle
  imports Complex_Main
begin

section \<open>JavaScript values\<close>

text \<open>
  The comparison utility of \<^verbatim>\<open>utils/compareObjects.ts\<close> inspects its arguments with
  \<^verbatim>\<open>typeof\<close>, \<^verbatim>\<open>instanceof Date\<close>, \<^verbatim>\<open>Array.isArray\<close>, \<^verbatim>\<open>Object.keys\<close>, property reads and
  \<^verbatim>\<open>===\<close>. The values it can meet are modelled as a tagged tree.

  \<^item> A number is \<^verbatim>\<open>NaN\<close>, an infinity or a finite value. Only \<^verbatim>\<open>===\<close> is ever applied to
    numbers, so a finite double is represented by the rational it denotes (both zeros
    denote 0, and \<^verbatim>\<open>+0 === -0\<close> holds).
  \<^item> Functions, symbols, dates, arrays and plain objects have an identity: the value
    carries the address of the object, and \<^verbatim>\<open>===\<close> on two of them compares addresses.
  \<^item> A date carries its time value, the number \<^verbatim>\<open>getTime()\<close> returns (\<^verbatim>\<open>NaN\<close> for an
    invalid date), and has no own properties.
  \<^item> An array is dense: it carries its elements for the indices below its length, and
    has no other own property than these and \<^verbatim>\<open>length\<close>.
  \<^item> A plain object carries its own enumerable string-keyed properties, in the order
    \<^verbatim>\<open>Object.keys\<close> lists them; they are writable data properties. The keys of an object
    are distinct; no theorem below needs that.
  \<^item> Dates, arrays and plain objects have the prototypes the language gives them:
    \<^verbatim>\<open>Date.prototype\<close>, \<^verbatim>\<open>Array.prototype\<close> and \<^verbatim>\<open>Object.prototype\<close>. A property read that finds
    no own property goes on along this chain, so the three prototype objects and
    their function-valued members are values too. The member tables are those of
    ECMAScript 2023, Annex B included.
  \<^item> A function that is not such a member is opaque: it has an address, the two
    read-only own properties \<^verbatim>\<open>length\<close> and \<^verbatim>\<open>name\<close> every function has, and it returns
    or throws when it is called.

  Objects of other classes, accessor properties in the data, frozen objects and cyclic
  object graphs are not part of the model.
\<close>

type_synonym ref = nat

datatype jsnumber = NaN | PosInf | NegInf | Fin rat

datatype proto = ObjectPrototype | ArrayPrototype | DatePrototype

text \<open>
  A function: one the caller made, or the member of a prototype object under its
  property name.
\<close>

datatype funref = UserFun ref | Member proto string

datatype jsval =
    JUndefined
  | JNull
  | JBool bool
  | JNum jsnumber
  | JStr string
  | JBigInt int
  | JSymbol ref
  | JFun funref
  | JProto proto
  | JDate ref jsnumber
  | JArr ref "jsval list"
  | JObj ref "(string \<times> jsval) list"

text \<open>\<^verbatim>\<open>a === b\<close> on two numbers: \<^verbatim>\<open>NaN\<close> is equal to nothing, itself included.\<close>

definition num_strict_eq :: "jsnumber \<Rightarrow> jsnumber \<Rightarrow> bool" where
  "num_strict_eq a b = (a \<noteq> NaN \<and> b \<noteq> NaN \<and> a = b)"

text \<open>\<^verbatim>\<open>a === b\<close>: no coercion; values of different types are never equal.\<close>

fun strict_eq :: "jsval \<Rightarrow> jsval \<Rightarrow> bool" where
  "strict_eq JUndefined b = (b = JUndefined)"
| "strict_eq JNull b = (b = JNull)"
| "strict_eq (JBool x) b = (b = JBool x)"
| "strict_eq (JNum x) b = (case b of JNum y \<Rightarrow> num_strict_eq x y | _ \<Rightarrow> False)"
| "strict_eq (JStr x) b = (b = JStr x)"
| "strict_eq (JBigInt x) b = (b = JBigInt x)"
| "strict_eq (JSymbol r) b = (case b of JSymbol r' \<Rightarrow> r = r' | _ \<Rightarrow> False)"
| "strict_eq (JFun f) b = (case b of JFun f' \<Rightarrow> f = f' | _ \<Rightarrow> False)"
| "strict_eq (JProto p) b = (case b of JProto p' \<Rightarrow> p = p' | _ \<Rightarrow> False)"
| "strict_eq (JDate r _) b = (case b of JDate r' _ \<Rightarrow> r = r' | _ \<Rightarrow> False)"
| "strict_eq (JArr r _) b = (case b of JArr r' _ \<Rightarrow> r = r' | _ \<Rightarrow> False)"
| "strict_eq (JObj r _) b = (case b of JObj r' _ \<Rightarrow> r = r' | _ \<Rightarrow> False)"

fun typeof :: "jsval \<Rightarrow> string" where
  "typeof JUndefined = ''undefined''"
| "typeof JNull = ''object''"
| "typeof (JBool _) = ''boolean''"
| "typeof (JNum _) = ''number''"
| "typeof (JStr _) = ''string''"
| "typeof (JBigInt _) = ''bigint''"
| "typeof (JSymbol _) = ''symbol''"
| "typeof (JFun _) = ''function''"
| "typeof (JProto _) = ''object''"
| "typeof (JDate _ _) = ''object''"
| "typeof (JArr _ _) = ''object''"
| "typeof (JObj _ _) = ''object''"

text \<open>The truthiness \<^verbatim>\<open>!v\<close> negates.\<close>

fun truthy :: "jsval \<Rightarrow> bool" where
  "truthy JUndefined = False"
| "truthy JNull = False"
| "truthy (JBool b) = b"
| "truthy (JNum n) = (n \<noteq> NaN \<and> n \<noteq> Fin 0)"
| "truthy (JStr s) = (s \<noteq> [])"
| "truthy (JBigInt i) = (i \<noteq> 0)"
| "truthy _ = True"

text \<open>
  The values of the language type Object, as opposed to the primitive values: what the
  built-in functions test before they coerce.
\<close>

fun isObjectType :: "jsval \<Rightarrow> bool" where
  "isObjectType (JFun _) = True"
| "isObjectType (JProto _) = True"
| "isObjectType (JDate _ _) = True"
| "isObjectType (JArr _ _) = True"
| "isObjectType (JObj _ _) = True"
| "isObjectType _ = False"

text \<open>\<^verbatim>\<open>v instanceof Date\<close>: \<^verbatim>\<open>Date.prototype\<close> itself is no instance.\<close>

fun instanceof_Date :: "jsval \<Rightarrow> bool" where
  "instanceof_Date (JDate _ _) = True"
| "instanceof_Date _ = False"

text \<open>\<^verbatim>\<open>d.getTime()\<close>; only ever called on a date.\<close>

fun getTime :: "jsval \<Rightarrow> jsnumber" where
  "getTime (JDate _ t) = t"
| "getTime _ = NaN"

text \<open>\<^verbatim>\<open>Array.isArray(v)\<close>: \<^verbatim>\<open>Array.prototype\<close> is an array, of length 0.\<close>

fun isArray :: "jsval \<Rightarrow> bool" where
  "isArray (JArr _ _) = True"
| "isArray (JProto ArrayPrototype) = True"
| "isArray _ = False"

text \<open>The elements of an array, for \<^verbatim>\<open>a.length\<close>, \<^verbatim>\<open>a.every\<close> and \<^verbatim>\<open>a[index]\<close>.\<close>

fun elements :: "jsval \<Rightarrow> jsval list" where
  "elements (JArr _ xs) = xs"
| "elements _ = []"

text \<open>\<^verbatim>\<open>a[index]\<close> on the elements of an array: out of range reads \<^verbatim>\<open>undefined\<close>.\<close>

fun index_arr :: "jsval list \<Rightarrow> nat \<Rightarrow> jsval" where
  "index_arr xs i = (if i < length xs then xs ! i else JUndefined)"

text \<open>The property name of an array index: its decimal numeral.\<close>

definition digit_char :: "nat \<Rightarrow> char" where
  "digit_char d = ''0123456789'' ! d"

fun string_of_nat :: "nat \<Rightarrow> string" where
  "string_of_nat n =
     (if n < 10 then [digit_char n]
      else string_of_nat (n div 10) @ [digit_char (n mod 10)])"

declare string_of_nat.simps [simp del]

text \<open>
  \<^verbatim>\<open>Object.keys(v)\<close>, applied by the program to non-null values of type
  \<^verbatim>\<open>"object"\<close> only: the keys of a plain object, the indices of an array, nothing for a
  date or a prototype object (whose members are not enumerable).
\<close>

fun own_keys :: "jsval \<Rightarrow> string list" where
  "own_keys (JObj _ ps) = map fst ps"
| "own_keys (JArr _ xs) = map string_of_nat [0..<length xs]"
| "own_keys _ = []"

section \<open>Property reads along the prototype chain\<close>

text \<open>
  The function-valued members of the three prototype objects. \<^verbatim>\<open>Object.prototype\<close> has
  the accessor \<^verbatim>\<open>__proto__\<close> besides, and \<^verbatim>\<open>Array.prototype\<close> its \<^verbatim>\<open>length\<close>.
\<close>

definition object_prototype_members :: "string list" where
  "object_prototype_members =
     [''constructor'', ''hasOwnProperty'', ''isPrototypeOf'', ''propertyIsEnumerable'',
      ''toLocaleString'', ''toString'', ''valueOf'', ''__defineGetter__'',
      ''__defineSetter__'', ''__lookupGetter__'', ''__lookupSetter__'']"

definition array_prototype_members :: "string list" where
  "array_prototype_members =
     [''constructor'', ''at'', ''concat'', ''copyWithin'', ''entries'', ''every'', ''fill'',
      ''filter'', ''find'', ''findIndex'', ''findLast'', ''findLastIndex'', ''flat'',
      ''flatMap'', ''forEach'', ''includes'', ''indexOf'', ''join'', ''keys'',
      ''lastIndexOf'', ''map'', ''pop'', ''push'', ''reduce'', ''reduceRight'', ''reverse'',
      ''shift'', ''slice'', ''some'', ''sort'', ''splice'', ''toLocaleString'',
      ''toReversed'', ''toSorted'', ''toSpliced'', ''toString'', ''unshift'', ''values'',
      ''with'']"

definition date_prototype_members :: "string list" where
  "date_prototype_members =
     [''constructor'', ''getDate'', ''getDay'', ''getFullYear'', ''getHours'',
      ''getMilliseconds'', ''getMinutes'', ''getMonth'', ''getSeconds'', ''getTime'',
      ''getTimezoneOffset'', ''getUTCDate'', ''getUTCDay'', ''getUTCFullYear'',
      ''getUTCHours'', ''getUTCMilliseconds'', ''getUTCMinutes'', ''getUTCMonth'',
      ''getUTCSeconds'', ''getYear'', ''setDate'', ''setFullYear'', ''setHours'',
      ''setMilliseconds'', ''setMinutes'', ''setMonth'', ''setSeconds'', ''setTime'',
      ''setUTCDate'', ''setUTCFullYear'', ''setUTCHours'', ''setUTCMilliseconds'',
      ''setUTCMinutes'', ''setUTCMonth'', ''setUTCSeconds'', ''setYear'', ''toDateString'',
      ''toGMTString'', ''toISOString'', ''toJSON'', ''toLocaleDateString'',
      ''toLocaleString'', ''toLocaleTimeString'', ''toString'', ''toTimeString'',
      ''toUTCString'', ''valueOf'']"

fun prototype_members :: "proto \<Rightarrow> string list" where
  "prototype_members ObjectPrototype = object_prototype_members"
| "prototype_members ArrayPrototype = array_prototype_members"
| "prototype_members DatePrototype = date_prototype_members"

text \<open>
  The member a prototype object holds under a name: \<^verbatim>\<open>Date.prototype.toGMTString\<close> is the
  function \<^verbatim>\<open>Date.prototype.toUTCString\<close>; every other member is a function of its own.
\<close>

definition member_fun :: "proto \<Rightarrow> string \<Rightarrow> jsval" where
  "member_fun p key =
     JFun (Member p (if p = DatePrototype \<and> key = ''toGMTString'' then ''toUTCString''
                     else key))"

text \<open>
  A read of a key other than \<^verbatim>\<open>__proto__\<close> that starts at a prototype object: its own
  member, else what \<^verbatim>\<open>Object.prototype\<close> holds, else \<^verbatim>\<open>undefined\<close>.
\<close>

definition inherited_prop :: "proto \<Rightarrow> string \<Rightarrow> jsval" where
  "inherited_prop p key =
     (if key \<in> set (prototype_members p) then member_fun p key
      else if key \<in> set object_prototype_members then member_fun ObjectPrototype key
      else JUndefined)"

text \<open>
  \<^verbatim>\<open>v[key]\<close>, applied by the program to non-null values of type \<^verbatim>\<open>"object"\<close> only: the own
  property if there is one, else the inherited one. The getter of \<^verbatim>\<open>__proto__\<close> returns
  the prototype of the object that is read.
\<close>

fun get_prop :: "jsval \<Rightarrow> string \<Rightarrow> jsval" where
  "get_prop (JObj _ ps) key =
     (case map_of ps key of
        Some v \<Rightarrow> v
      | None \<Rightarrow> if key = ''__proto__'' then JProto ObjectPrototype
                else inherited_prop ObjectPrototype key)"
| "get_prop (JArr _ xs) key =
     (case find (\<lambda>i. string_of_nat i = key) [0..<length xs] of
        Some i \<Rightarrow> xs ! i
      | None \<Rightarrow> if key = ''length'' then JNum (Fin (of_nat (length xs)))
                else if key = ''__proto__'' then JProto ArrayPrototype
                else inherited_prop ArrayPrototype key)"
| "get_prop (JDate _ _) key =
     (if key = ''__proto__'' then JProto DatePrototype else inherited_prop DatePrototype key)"
| "get_prop (JProto ObjectPrototype) key =
     (if key = ''__proto__'' then JNull else inherited_prop ObjectPrototype key)"
| "get_prop (JProto ArrayPrototype) key =
     (if key = ''length'' then JNum (Fin 0)
      else if key = ''__proto__'' then JProto ObjectPrototype
      else inherited_prop ArrayPrototype key)"
| "get_prop (JProto DatePrototype) key =
     (if key = ''__proto__'' then JProto ObjectPrototype else inherited_prop DatePrototype key)"
| "get_prop _ key = JUndefined"

text \<open>
  The update of the own properties of a plain object: an existing property keeps its
  place, a new one comes last. The program assigns in the order of
  \<^verbatim>\<open>Object.keys(currentValue)\<close>, for which this is the order of the keys of the result.
\<close>

fun set_prop :: "(string \<times> jsval) list \<Rightarrow> string \<Rightarrow> jsval \<Rightarrow> (string \<times> jsval) list" where
  "set_prop [] key v = [(key, v)]"
| "set_prop ((k, w) # ps) key v =
     (if k = key then (k, v) # ps else (k, w) # set_prop ps key v)"

section \<open>The comparator\<close>

fun isPrimitive :: "jsval \<Rightarrow> bool" where
  "isPrimitive value =
     (value = JNull \<or>
      value = JUndefined \<or>
      typeof value = ''string'' \<or>
      typeof value = ''number'' \<or>
      typeof value = ''boolean'' \<or>
      instanceof_Date value)"

text \<open>
  \<^verbatim>\<open>areEqual\<close> is a closure over \<^verbatim>\<open>deep\<close>, here its first argument. In the array branch
  \<^verbatim>\<open>every\<close> passes each element with its index; in the object branch it passes each key
  of \<^verbatim>\<open>current\<close>.
\<close>

function areEqual :: "bool \<Rightarrow> jsval \<Rightarrow> jsval \<Rightarrow> bool" where
  "areEqual deep current original =
     (if isPrimitive current \<or> isPrimitive original then
        (if instanceof_Date current \<and> instanceof_Date original
         then num_strict_eq (getTime current) (getTime original)
         else strict_eq current original)
      else if isArray current \<and> isArray original then
        (if length (elements current) \<noteq> length (elements original) then False
         else if \<not> deep then strict_eq current original
         else list_all
                (\<lambda>(value, index). areEqual deep value (index_arr (elements original) index))
                (zip (elements current) [0..<length (elements current)]))
      else if typeof current = ''object'' \<and> current \<noteq> JNull \<and>
              typeof original = ''object'' \<and> original \<noteq> JNull then
        (if \<not> deep then strict_eq current original
         else
           let currentKeys = own_keys current;
               originalKeys = own_keys original
           in if length currentKeys \<noteq> length originalKeys then False
              else list_all
                     (\<lambda>key. areEqual deep (get_prop current key) (get_prop original key))
                     currentKeys)
      else strict_eq current original)"
  by pat_completeness auto

text \<open>Every recursive call is on a component of \<^verbatim>\<open>current\<close>.\<close>

lemma size_elem_less: "x \<in> set xs \<Longrightarrow> size (x::jsval) < Suc (size_list size xs)"
  by (induction xs) auto

lemma size_map_of_less:
  "map_of ps k = Some v \<Longrightarrow> size (v::jsval) < Suc (size_list (size_prod (\<lambda>_. 0) size) ps)"
  by (induction ps) (auto split: if_splits)

lemma size_inherited_prop: "size (inherited_prop p key) = 0"
  by (simp add: inherited_prop_def member_fun_def)

lemma get_prop_size: "key \<in> set (own_keys c) \<Longrightarrow> size (get_prop c key) < size c"
proof (cases c)
  case (JArr r xs)
  show ?thesis
  proof (cases "find (\<lambda>i. string_of_nat i = key) [0..<length xs]")
    case None
    with JArr show ?thesis by (simp add: size_inherited_prop)
  next
    case (Some i)
    then have "i < length xs" by (auto simp: find_Some_iff)
    then have "xs ! i \<in> set xs" by simp
    then show ?thesis using JArr Some by (simp add: size_elem_less)
  qed
next
  case (JObj r ps)
  then show ?thesis
    by (auto split: option.splits simp: size_map_of_less size_inherited_prop)
qed simp_all

termination areEqual
proof (relation "measure (\<lambda>(deep, current, original). size current)", goal_cases)
  case 1
  show ?case by simp
next
  case (2 deep current original x v index)
  from 2 obtain r xs where c: "current = JArr r xs" by (cases current) auto
  from 2 have "v \<in> set (elements current)" by (auto dest: set_zip_leftD)
  with c show ?case by (simp add: size_elem_less)
next
  case (3 deep current original currentKeys originalKeys key)
  then show ?case by (simp add: get_prop_size)
qed

declare areEqual.simps [simp del]

section \<open>Options and errors\<close>

text \<open>
  What a call can raise: the program's own error; what a registered comparator throws;
  the \<^verbatim>\<open>TypeError\<close> of the language; and, where a built-in function first converts an
  object to a property key, whatever that conversion throws or else a \<^verbatim>\<open>TypeError\<close>.
\<close>

datatype error = InvalidArgument | ComparatorThrew jsval | TypeError | KeyConversionOrTypeError

text \<open>
  A custom comparator \<^verbatim>\<open>(current, original) => boolean\<close>: it returns a boolean (\<open>Inr\<close>) or
  throws a value (\<open>Inl\<close>).
\<close>

type_synonym comparator = "jsval \<Rightarrow> jsval \<Rightarrow> jsval + bool"

text \<open>
  \<^verbatim>\<open>CompareOptions\<close>: every field is optional; an omitted options argument is \<^verbatim>\<open>{}\<close>.
  \<^verbatim>\<open>customComparators\<close> is a plain object: under a key it has no own property (\<open>None\<close>), or
  an own property that holds \<^verbatim>\<open>undefined\<close> (\<open>Some None\<close>) or a comparator.
\<close>

record CompareOptions =
  includeNullish :: "bool option"
  customComparators :: "(string \<Rightarrow> comparator option option) option"
  deep :: "bool option"
  ignoreFields :: "string list option"

definition no_options :: CompareOptions where
  "no_options =
     \<lparr>includeNullish = None, customComparators = None, deep = None, ignoreFields = None\<rparr>"

text \<open>
  The destructuring
  \<^verbatim>\<open>{ includeNullish = false, customComparators = {}, deep = true, ignoreFields = [] }\<close>.
\<close>

definition opt_includeNullish :: "CompareOptions \<Rightarrow> bool" where
  "opt_includeNullish options = (case includeNullish options of None \<Rightarrow> False | Some b \<Rightarrow> b)"

definition opt_deep :: "CompareOptions \<Rightarrow> bool" where
  "opt_deep options = (case deep options of None \<Rightarrow> True | Some b \<Rightarrow> b)"

definition opt_ignoreFields :: "CompareOptions \<Rightarrow> string list" where
  "opt_ignoreFields options = (case ignoreFields options of None \<Rightarrow> [] | Some ks \<Rightarrow> ks)"

text \<open>The own properties of the \<^verbatim>\<open>customComparators\<close> object, \<^verbatim>\<open>{}\<close> when it is omitted.\<close>

definition registered_comparator :: "CompareOptions \<Rightarrow> string \<Rightarrow> comparator option option" where
  "registered_comparator options key =
     (case customComparators options of None \<Rightarrow> None | Some m \<Rightarrow> m key)"

text \<open>
  What the program gets from \<^verbatim>\<open>comparator(currentField, originalField)\<close>: the error the
  call raises, or the truthiness of what it returns.
\<close>

type_synonym callable = "jsval \<Rightarrow> jsval \<Rightarrow> error + bool"

definition call_registered :: "comparator \<Rightarrow> callable" where
  "call_registered comparator current original =
     (case comparator current original of
        Inl thrown \<Rightarrow> Inl (ComparatorThrew thrown)
      | Inr res \<Rightarrow> Inr res)"

text \<open>
  \<^verbatim>\<open>customComparators[key]\<close> where the object has no own property: the member inherited
  from \<^verbatim>\<open>Object.prototype\<close>, called as a function without a \<^verbatim>\<open>this\<close> value.
  \<^verbatim>\<open>Object\<close> returns an object and \<^verbatim>\<open>toString\<close> the string \<^verbatim>\<open>"[object Undefined]"\<close>, both
  truthy. \<^verbatim>\<open>isPrototypeOf\<close> returns \<^verbatim>\<open>false\<close> for a primitive argument. Every other
  member converts its missing \<^verbatim>\<open>this\<close> to an object and throws a \<^verbatim>\<open>TypeError\<close>;
  \<^verbatim>\<open>hasOwnProperty\<close> and \<^verbatim>\<open>propertyIsEnumerable\<close> convert their argument to a property key
  before. The value of \<^verbatim>\<open>__proto__\<close> is \<^verbatim>\<open>Object.prototype\<close>, which is truthy and not
  callable.
\<close>

definition call_member :: "string \<Rightarrow> callable" where
  "call_member key current original =
     (if key = ''constructor'' \<or> key = ''toString'' then Inr True
      else if key = ''isPrototypeOf''
      then (if isObjectType current then Inl TypeError else Inr False)
      else if key = ''hasOwnProperty'' \<or> key = ''propertyIsEnumerable''
      then (if isObjectType current then Inl KeyConversionOrTypeError else Inl TypeError)
      else Inl TypeError)"

definition inherited_comparator :: "string \<Rightarrow> callable option" where
  "inherited_comparator key =
     (if key \<in> set object_prototype_members \<or> key = ''__proto__''
      then Some (call_member key) else None)"

text \<open>
  \<^verbatim>\<open>const comparator = customComparators[typedKey]; if (comparator) ...\<close>: what the
  program finds to call under a key, if anything.
\<close>

definition opt_customComparators :: "CompareOptions \<Rightarrow> string \<Rightarrow> callable option" where
  "opt_customComparators options key =
     (case registered_comparator options key of
        Some (Some comparator) \<Rightarrow> Some (call_registered comparator)
      | Some None \<Rightarrow> None
      | None \<Rightarrow> inherited_comparator key)"

section \<open>The field diff\<close>

text \<open>
  \<^verbatim>\<open>changedFields\<close> starts as \<^verbatim>\<open>{}\<close>: an object with the prototype \<^verbatim>\<open>Object.prototype\<close> and
  no own properties.
\<close>

record result_object =
  prototype_of :: jsval
  own_props :: "(string \<times> jsval) list"

definition empty_object :: result_object where
  "empty_object = \<lparr>prototype_of = JProto ObjectPrototype, own_props = []\<rparr>"

text \<open>
  What an assignment \<^verbatim>\<open>changedFields[key] = v\<close> finds along the prototype chain when
  \<^verbatim>\<open>changedFields\<close> has no own property \<^verbatim>\<open>key\<close>: nothing or a writable data property (the
  assignment creates an own property), a read-only property or a setter that throws
  (the assignment throws a \<^verbatim>\<open>TypeError\<close>, the module being strict code), or the setter of
  \<^verbatim>\<open>__proto__\<close> in \<^verbatim>\<open>Object.prototype\<close>. A function has the read-only \<^verbatim>\<open>length\<close> and \<^verbatim>\<open>name\<close>, a
  constructor \<^verbatim>\<open>prototype\<close> too, and \<^verbatim>\<open>Function.prototype\<close> the throwing \<^verbatim>\<open>caller\<close> and
  \<^verbatim>\<open>arguments\<close>.
\<close>

datatype slot = CreateOwn | ReadOnly | ProtoSetter

definition object_slot :: "string \<Rightarrow> slot" where
  "object_slot key = (if key = ''__proto__'' then ProtoSetter else CreateOwn)"

fun is_constructor :: "funref \<Rightarrow> bool" where
  "is_constructor (Member p key) = (key = ''constructor'')"
| "is_constructor (UserFun r) = False"

fun inherited_slot :: "jsval \<Rightarrow> string \<Rightarrow> slot" where
  "inherited_slot JNull key = CreateOwn"
| "inherited_slot (JObj _ ps) key =
     (if key \<in> fst ` set ps then CreateOwn else object_slot key)"
| "inherited_slot (JFun f) key =
     (if key \<in> set [''length'', ''name'', ''caller'', ''arguments''] \<or>
         (key = ''prototype'' \<and> is_constructor f)
      then ReadOnly else object_slot key)"
| "inherited_slot _ key = object_slot key"

text \<open>
  \<^verbatim>\<open>changedFields[key] = v\<close>. The setter of \<^verbatim>\<open>__proto__\<close> makes an object or \<^verbatim>\<open>null\<close> the new
  prototype of \<^verbatim>\<open>changedFields\<close> and ignores any other value; it creates no own
  property.
\<close>

definition assign_prop :: "result_object \<Rightarrow> string \<Rightarrow> jsval \<Rightarrow> error + result_object" where
  "assign_prop changedFields key v =
     (if key \<in> fst ` set (own_props changedFields)
      then Inr (changedFields\<lparr>own_props := set_prop (own_props changedFields) key v\<rparr>)
      else case inherited_slot (prototype_of changedFields) key of
             CreateOwn \<Rightarrow>
               Inr (changedFields\<lparr>own_props := set_prop (own_props changedFields) key v\<rparr>)
           | ReadOnly \<Rightarrow> Inl TypeError
           | ProtoSetter \<Rightarrow>
               Inr (if isObjectType v \<or> v = JNull
                    then changedFields\<lparr>prototype_of := v\<rparr>
                    else changedFields))"

text \<open>
  \<^verbatim>\<open>keys.forEach(callback)\<close> where the callback updates \<^verbatim>\<open>changedFields\<close> or throws: an
  exception ends the loop and propagates.
\<close>

fun forEach ::
  "(string \<Rightarrow> 's \<Rightarrow> error + 's) \<Rightarrow> string list \<Rightarrow> 's \<Rightarrow> error + 's" where
  "forEach callback [] changedFields = Inr changedFields"
| "forEach callback (key # keys) changedFields =
     (case callback key changedFields of
        Inl e \<Rightarrow> Inl e
      | Inr changedFields' \<Rightarrow> forEach callback keys changedFields')"

text \<open>The body of the loop over \<^verbatim>\<open>Object.keys(currentValue)\<close>, for one key.\<close>

definition visit_key ::
  "CompareOptions \<Rightarrow> jsval \<Rightarrow> jsval \<Rightarrow> string \<Rightarrow> result_object \<Rightarrow> error + result_object" where
  "visit_key options currentValue originalValue key changedFields =
     (if key \<in> set (opt_ignoreFields options) then Inr changedFields
      else
        let currentField = get_prop currentValue key;
            originalField = get_prop originalValue key
        in case opt_customComparators options key of
             Some comparator \<Rightarrow>
               (case comparator currentField originalField of
                  Inl e \<Rightarrow> Inl e
                | Inr res \<Rightarrow>
                    if \<not> res then assign_prop changedFields key currentField
                    else Inr changedFields)
           | None \<Rightarrow>
               if \<not> opt_includeNullish options \<and>
                  (currentField = JUndefined \<or> currentField = JNull) \<and>
                  (originalField = JUndefined \<or> originalField = JNull)
               then Inr changedFields
               else if \<not> areEqual (opt_deep options) currentField originalField
               then assign_prop changedFields key currentField
               else Inr changedFields)"

text \<open>
  \<^verbatim>\<open>getChangedFields\<close> returns the own properties of the object it builds, in order, or
  the error it raises.
\<close>

definition getChangedFields ::
  "jsval \<Rightarrow> jsval \<Rightarrow> CompareOptions \<Rightarrow> error + (string \<times> jsval) list" where
  "getChangedFields currentValue originalValue options =
     (if \<not> truthy currentValue \<or>
         \<not> truthy originalValue \<or>
         typeof currentValue \<noteq> ''object'' \<or>
         typeof originalValue \<noteq> ''object''
      then Inl InvalidArgument
      else case forEach (visit_key options currentValue originalValue)
                  (own_keys currentValue) empty_object of
             Inl e \<Rightarrow> Inl e
           | Inr changedFields \<Rightarrow> Inr (own_props changedFields))"

definition hasChanges :: "jsval \<Rightarrow> jsval \<Rightarrow> CompareOptions \<Rightarrow> error + bool" where
  "hasChanges currentValue originalValue options =
     (case getChangedFields currentValue originalValue options of
        Inl e \<Rightarrow> Inl e
      | Inr changedFields \<Rightarrow> Inr (length (map fst changedFields) > 0))"

text \<open>
  The values the guard of \<^verbatim>\<open>getChangedFields\<close> is about: the non-null values of type
  \<^verbatim>\<open>"object"\<close>, which are the prototype objects, the dates, the arrays and the plain
  objects.
\<close>

fun is_object :: "jsval \<Rightarrow> bool" where
  "is_object (JProto _) = True"
| "is_object (JDate _ _) = True"
| "is_object (JArr _ _) = True"
| "is_object (JObj _ _) = True"
| "is_object _ = False"

text \<open>
  Nesting, for stating a property of the comparator at any depth: a value wrapped in
  one-element arrays and one-field records, outermost first. Two nestings have the
  same shape when they wrap in the same kinds and under the same keys; the addresses of
  the wrappers are free.
\<close>

datatype layer = InArray ref | InRecord ref string

fun wrap :: "layer list \<Rightarrow> jsval \<Rightarrow> jsval" where
  "wrap [] v = v"
| "wrap (InArray r # ls) v = JArr r [wrap ls v]"
| "wrap (InRecord r key # ls) v = JObj r [(key, wrap ls v)]"

fun same_shape :: "layer \<Rightarrow> layer \<Rightarrow> bool" where
  "same_shape (InArray _) (InArray _) = True"
| "same_shape (InRecord _ key) (InRecord _ key') = (key = key')"
| "same_shape _ _ = False"

section \<open>Evaluation and the loop\<close>

text \<open>The definitions a concrete call unfolds to.\<close>

lemmas diff_defs = getChangedFields_def hasChanges_def visit_key_def no_options_def
  opt_includeNullish_def opt_customComparators_def opt_deep_def opt_ignoreFields_def
  registered_comparator_def call_registered_def inherited_comparator_def call_member_def
  assign_prop_def empty_object_def object_slot_def inherited_prop_def member_fun_def
  object_prototype_members_def array_prototype_members_def date_prototype_members_def

lemmas eval_defs = diff_defs areEqual.simps num_strict_eq_def

text \<open>
  An assignment leaves the own properties as they are or stores the value under the
  key, and it stores it when the key is not \<^verbatim>\<open>__proto__\<close>. One visit of the loop does
  the same with the current value of the visited key; the loop therefore changes the
  entry of a key only when it visits that key.
\<close>

lemma map_of_set_prop: "map_of (set_prop ps key v) = (map_of ps)(key \<mapsto> v)"
  by (induction ps key v rule: set_prop.induct) auto


lemma assign_prop_cases:
  "assign_prop st key v = Inr st' \<Longrightarrow>
     own_props st' = own_props st \<or> own_props st' = set_prop (own_props st) key v"
  by (auto simp: assign_prop_def split: if_splits slot.splits)


lemma assign_prop_not_InvalidArgument: "assign_prop st key v \<noteq> Inl InvalidArgument"
  by (auto simp: assign_prop_def split: if_splits slot.splits)

lemma callable_not_InvalidArgument:
  "opt_customComparators options key = Some call \<Longrightarrow> call c orig \<noteq> Inl InvalidArgument"
proof -
  have m: "call_member key c orig \<noteq> Inl InvalidArgument"
    by (simp add: call_member_def)
  have r: "call_registered comparator c orig \<noteq> Inl InvalidArgument" for comparator
    by (simp add: call_registered_def split: sum.splits)
  assume "opt_customComparators options key = Some call"
  then have "call = call_member key \<or> (\<exists>comparator. call = call_registered comparator)"
    by (auto simp: opt_customComparators_def inherited_comparator_def
          split: option.splits if_splits)
  with m r show ?thesis by auto
qed

lemma visit_key_cases:
  "visit_key options cur orig key st = Inr st' \<Longrightarrow>
     own_props st' = own_props st \<or>
     own_props st' = set_prop (own_props st) key (get_prop cur key)"
  by (auto simp: visit_key_def Let_def split: if_splits option.splits sum.splits
        dest: assign_prop_cases)

lemma visit_key_not_InvalidArgument: "visit_key options cur orig key st \<noteq> Inl InvalidArgument"
  by (auto simp: visit_key_def Let_def assign_prop_not_InvalidArgument
        split: if_splits option.splits sum.splits dest: callable_not_InvalidArgument)

lemma forEach_not_InvalidArgument:
  "forEach (visit_key options cur orig) ks st \<noteq> Inl InvalidArgument"
  by (induction ks arbitrary: st) (auto simp: visit_key_not_InvalidArgument split: sum.splits)

lemma forEach_entry:
  "forEach (visit_key options cur orig) ks st = Inr res \<Longrightarrow>
   map_of (own_props res) k = Some v \<Longrightarrow>
     map_of (own_props st) k = Some v \<or> (k \<in> set ks \<and> v = get_prop cur k)"
proof (induction ks arbitrary: st)
  case Nil
  then show ?case by simp
next
  case (Cons k0 ks)
  from Cons.prems(1) obtain st1 where
    v: "visit_key options cur orig k0 st = Inr st1" and
    f: "forEach (visit_key options cur orig) ks st1 = Inr res"
    by (auto split: sum.splits)
  from Cons.IH [OF f Cons.prems(2)] visit_key_cases [OF v] show ?case
    by (auto simp: map_of_set_prop split: if_splits)
qed





lemma getChangedFields_Inr:
  "getChangedFields cur orig options = Inr res \<Longrightarrow>
   \<exists>st. forEach (visit_key options cur orig) (own_keys cur) empty_object = Inr st \<and>
        own_props st = res"
  by (auto simp: getChangedFields_def split: if_splits sum.splits)




section \<open>The result is a sub-mapping of current\<close>

text \<open>
  C1. Whenever \<^verbatim>\<open>getChangedFields\<close> returns, every key of the result is an own key of
  \<^verbatim>\<open>current\<close> and holds the value \<^verbatim>\<open>current\<close> has there; a key that only \<^verbatim>\<open>original\<close> has is
  not in the result. This holds for all arguments and all options.
\<close>

theorem getChangedFields_submapping:
  "getChangedFields current original options = Inr changed \<Longrightarrow>
   (\<forall>key \<in> set (map fst changed).
      key \<in> set (own_keys current) \<and> map_of changed key = Some (get_prop current key)) \<and>
   (\<forall>key \<in> set (own_keys original).
      key \<notin> set (own_keys current) \<longrightarrow> key \<notin> set (map fst changed))"
proof -
  assume g: "getChangedFields current original options = Inr changed"
  from getChangedFields_Inr [OF g] obtain st where
    f: "forEach (visit_key options current original) (own_keys current) empty_object = Inr st"
    and o: "own_props st = changed" by blast
  have in_cur: "key \<in> set (own_keys current) \<and> map_of changed key = Some (get_prop current key)"
    if "key \<in> set (map fst changed)" for key
  proof -
    from that obtain v where "map_of changed key = Some v"
      by (cases "map_of changed key") (auto simp: map_of_eq_None_iff)
    with forEach_entry [OF f, of key v] o show ?thesis by (simp add: empty_object_def)
  qed
  then show ?thesis by blast
qed

theorem getChangedFields_submapping_witness:
  "getChangedFields
     (JObj 1 [(''a'', JNum (Fin 1)), (''b'', JNum (Fin 2))])
     (JObj 2 [(''a'', JNum (Fin 1)), (''b'', JNum (Fin 3)), (''c'', JNum (Fin 4))])
     no_options = Inr [(''b'', JNum (Fin 2))] \<and>
   ''b'' \<in> set (own_keys (JObj 1 [(''a'', JNum (Fin 1)), (''b'', JNum (Fin 2))])) \<and>
   ''c'' \<notin> set (map fst [(''b'', JNum (Fin 2))])"
proof -
  have e: "getChangedFields
     (JObj 1 [(''a'', JNum (Fin 1)), (''b'', JNum (Fin 2))])
     (JObj 2 [(''a'', JNum (Fin 1)), (''b'', JNum (Fin 3)), (''c'', JNum (Fin 4))])
     no_options = Inr [(''b'', JNum (Fin 2))]"
    by (simp add: eval_defs)
  from getChangedFields_submapping [OF e] e show ?thesis by simp
qed

section \<open>The argument check\<close>

text \<open>
  C2, as the code has it. \<^verbatim>\<open>getChangedFields\<close> raises \<^verbatim>\<open>InvalidArgument\<close> exactly when
  \<^verbatim>\<open>current\<close> or \<^verbatim>\<open>original\<close> is not a non-null value of type \<^verbatim>\<open>"object"\<close>, that is when one of
  them is \<^verbatim>\<open>null\<close>, \<^verbatim>\<open>undefined\<close>, a boolean, a number, a string, a bigint, a symbol or a
  function. It does so whatever the options are, so no field is read and no comparator
  is called first, and \<^verbatim>\<open>hasChanges\<close> raises the same error in the same cases. An array or a
  date is a non-null value of type \<^verbatim>\<open>"object"\<close> and passes the check.
\<close>

lemma guard_is_object: "(\<not> truthy v \<or> typeof v \<noteq> ''object'') = (\<not> is_object v)"
  by (cases v) auto

theorem InvalidArgument_iff:
  "(getChangedFields cur orig options = Inl InvalidArgument) = (\<not> (is_object cur \<and> is_object orig)) \<and>
   (hasChanges cur orig options = Inl InvalidArgument) = (\<not> (is_object cur \<and> is_object orig))"
proof -
  have g: "(getChangedFields cur orig options = Inl InvalidArgument) =
           (\<not> (is_object cur \<and> is_object orig))"
  proof (cases "is_object cur \<and> is_object orig")
    case True
    then have "truthy cur" "truthy orig" "typeof cur = ''object''" "typeof orig = ''object''"
      using guard_is_object [of cur] guard_is_object [of orig] by auto
    then show ?thesis
      using True forEach_not_InvalidArgument [of options cur orig "own_keys cur" empty_object]
      by (auto simp: getChangedFields_def split: sum.splits)
  next
    case False
    then have "\<not> truthy cur \<or> \<not> truthy orig \<or> typeof cur \<noteq> ''object'' \<or> typeof orig \<noteq> ''object''"
      using guard_is_object [of cur] guard_is_object [of orig] by auto
    then show ?thesis
      using False by (simp add: getChangedFields_def)
  qed
  have "(hasChanges cur orig options = Inl InvalidArgument) =
        (getChangedFields cur orig options = Inl InvalidArgument)"
    by (simp add: hasChanges_def split: sum.splits)
  with g show ?thesis by simp
qed

theorem InvalidArgument_iff_witness:
  "getChangedFields JNull (JObj 1 []) no_options = Inl InvalidArgument \<and>
   getChangedFields (JNum (Fin 5)) (JObj 1 [(''a'', JNum (Fin 1))]) no_options = Inl InvalidArgument \<and>
   hasChanges (JNum (Fin 5)) (JObj 1 [(''a'', JNum (Fin 1))]) no_options = Inl InvalidArgument"
  using InvalidArgument_iff [of JNull "JObj 1 []" no_options]
    InvalidArgument_iff [of "JNum (Fin 5)" "JObj 1 [(''a'', JNum (Fin 1))]" no_options]
  by simp

text \<open>
  The check does not refuse an array: two arrays at the top level are compared index by
  index, and the call returns.
\<close>

theorem array_passes_guard_counterexample:
  "getChangedFields (JArr 1 [JNum (Fin 1)]) (JArr 2 [JNum (Fin 2)]) no_options
     = Inr [(''0'', JNum (Fin 1))]"
  by (simp add: eval_defs string_of_nat.simps digit_char_def)



section \<open>Nullish values\<close>

text \<open>
  C3. For \<^verbatim>\<open>current = {age: null}\<close> and \<^verbatim>\<open>original = {age: 30}\<close> the code returns
  \<^verbatim>\<open>{age: null}\<close> whether \<^verbatim>\<open>includeNullish\<close> is omitted, \<^verbatim>\<open>false\<close> or \<^verbatim>\<open>true\<close>: the nullish rule
  skips a field only when both values are nullish, and 30 is not.
\<close>

theorem nullish_change_reported:
  "getChangedFields (JObj 1 [(''age'', JNull)]) (JObj 2 [(''age'', JNum (Fin 30))]) no_options
     = Inr [(''age'', JNull)] \<and>
   getChangedFields (JObj 1 [(''age'', JNull)]) (JObj 2 [(''age'', JNum (Fin 30))])
     (no_options\<lparr>includeNullish := Some False\<rparr>) = Inr [(''age'', JNull)] \<and>
   getChangedFields (JObj 1 [(''age'', JNull)]) (JObj 2 [(''age'', JNum (Fin 30))])
     (no_options\<lparr>includeNullish := Some True\<rparr>) = Inr [(''age'', JNull)]"
  by (simp add: eval_defs)

theorem nullish_change_reported_witness:
  "hasChanges (JObj 1 [(''age'', JNull)]) (JObj 2 [(''age'', JNum (Fin 30))]) no_options
     = Inr True"
  using nullish_change_reported by (simp add: hasChanges_def)




section \<open>Custom comparators\<close>




section \<open>The comparator on arrays, records and dates\<close>

text \<open>The comparator on numbers, arrays, and values nested one level.\<close>

lemma list_all_zip_upt:
  "length xs = n \<Longrightarrow>
   list_all (\<lambda>(v, i). P v i) (zip xs [0..<n]) = (\<forall>i<n. P (xs ! i) i)"
  by (auto simp: list_all_length)

lemma areEqual_arrays_deep:
  "areEqual True (JArr r1 xs) (JArr r2 ys) =
     (length xs = length ys \<and> (\<forall>i<length xs. areEqual True (xs ! i) (ys ! i)))"
proof (cases "length xs = length ys")
  case True
  then show ?thesis by (subst areEqual.simps) (simp add: list_all_zip_upt)
next
  case False
  then show ?thesis by (subst areEqual.simps) simp
qed

lemma areEqual_arrays_shallow:
  "areEqual False (JArr r1 xs) (JArr r2 ys) = (length xs = length ys \<and> r1 = r2)"
  by (simp add: areEqual.simps)

lemma areEqual_numbers: "areEqual d (JNum a) (JNum b) = num_strict_eq a b"
  by (simp add: areEqual.simps)

lemma areEqual_singleton_array:
  "areEqual True (JArr r1 [x]) (JArr r2 [y]) = areEqual True x y"
  by (subst areEqual.simps) simp

lemma areEqual_singleton_record:
  "areEqual True (JObj r1 [(key, x)]) (JObj r2 [(key, y)]) = areEqual True x y"
  by (subst areEqual.simps) simp

lemma areEqual_wrap:
  "list_all2 same_shape p q \<Longrightarrow> areEqual True (wrap p x) (wrap q y) = areEqual True x y"
proof (induction p q rule: list_all2_induct)
  case Nil
  then show ?case by simp
next
  case (Cons l p l' q)
  then show ?case
    by (cases l; cases l')
       (simp_all add: areEqual_singleton_array areEqual_singleton_record)
qed

text \<open>
  C5. In deep mode an array and a plain object that is not an array are not compared by
  identity: both are non-null values of type \<^verbatim>\<open>"object"\<close>, so the object branch compares
  them key by key, and the array \<^verbatim>\<open>[1]\<close> is judged equal to the distinct record
  \<^verbatim>\<open>{"0": 1}\<close> (in either order), as \<^verbatim>\<open>[]\<close> is to \<^verbatim>\<open>{}\<close>, although \<^verbatim>\<open>===\<close> tells them apart.
  In shallow mode they are unequal.
\<close>

theorem array_equals_record:
  "areEqual True (JArr 1 [JNum (Fin 1)]) (JObj 2 [(''0'', JNum (Fin 1))]) = True \<and>
   strict_eq (JArr 1 [JNum (Fin 1)]) (JObj 2 [(''0'', JNum (Fin 1))]) = False \<and>
   areEqual True (JObj 2 [(''0'', JNum (Fin 1))]) (JArr 1 [JNum (Fin 1)]) = True \<and>
   areEqual True (JArr 1 []) (JObj 2 []) = True \<and>
   areEqual False (JArr 1 [JNum (Fin 1)]) (JObj 2 [(''0'', JNum (Fin 1))]) = False"
  by (simp add: eval_defs string_of_nat.simps digit_char_def)

theorem array_equals_record_witness:
  "getChangedFields (JObj 3 [(''a'', JArr 1 [JNum (Fin 1)])])
     (JObj 4 [(''a'', JObj 2 [(''0'', JNum (Fin 1))])]) no_options = Inr []"
  using array_equals_record
  by (simp add: diff_defs)

text \<open>
  C6, as the code has it. In deep mode two plain objects are equal exactly when they
  have the same number of own keys and, at every own key of \<^verbatim>\<open>current\<close>, the value of
  \<^verbatim>\<open>current\<close> equals what \<^verbatim>\<open>original[key]\<close> reads: the own property of \<^verbatim>\<open>original\<close>; where it
  has none, the member of \<^verbatim>\<open>Object.prototype\<close> of that name (\<^verbatim>\<open>Object.prototype\<close> itself for
  \<^verbatim>\<open>__proto__\<close>); and \<^verbatim>\<open>undefined\<close> for any other missing key. The keys of \<^verbatim>\<open>original\<close> are
  counted and never looked at.
\<close>

theorem deep_record_lookup:
  "areEqual True (JObj r1 ps) (JObj r2 qs) =
     (length (own_keys (JObj r1 ps)) = length (own_keys (JObj r2 qs)) \<and>
      (\<forall>key \<in> set (own_keys (JObj r1 ps)).
         areEqual True (get_prop (JObj r1 ps) key)
           (case map_of qs key of
              Some v \<Rightarrow> v
            | None \<Rightarrow>
                if key = ''__proto__'' then JProto ObjectPrototype
                else if key \<in> set object_prototype_members
                then member_fun ObjectPrototype key
                else JUndefined)))"
proof -
  have "get_prop (JObj r2 qs) key =
          (case map_of qs key of
             Some v \<Rightarrow> v
           | None \<Rightarrow>
               if key = ''__proto__'' then JProto ObjectPrototype
               else if key \<in> set object_prototype_members
               then member_fun ObjectPrototype key
               else JUndefined)" for key
    by (simp add: inherited_prop_def split: option.splits)
  then show ?thesis
    by (subst areEqual.simps) (simp add: list_all_iff Let_def del: get_prop.simps)
qed

theorem deep_record_lookup_witness:
  "areEqual True (JObj 1 [(''a'', JNum (Fin 1)), (''b'', JUndefined)])
     (JObj 2 [(''a'', JNum (Fin 1)), (''c'', JNum (Fin 2))]) = True \<and>
   areEqual True (JObj 1 [(''a'', JNum (Fin 1)), (''b'', JNum (Fin 2))])
     (JObj 2 [(''a'', JNum (Fin 1)), (''c'', JNum (Fin 2))]) = False \<and>
   areEqual True (JObj 1 [(''a'', JNum (Fin 1))])
     (JObj 2 [(''a'', JNum (Fin 1)), (''c'', JNum (Fin 2))]) = False"
  using deep_record_lookup [of 1 "[(''a'', JNum (Fin 1)), (''b'', JUndefined)]"
          2 "[(''a'', JNum (Fin 1)), (''c'', JNum (Fin 2))]"]
    deep_record_lookup [of 1 "[(''a'', JNum (Fin 1)), (''b'', JNum (Fin 2))]"
          2 "[(''a'', JNum (Fin 1)), (''c'', JNum (Fin 2))]"]
    deep_record_lookup [of 1 "[(''a'', JNum (Fin 1))]"
          2 "[(''a'', JNum (Fin 1)), (''c'', JNum (Fin 2))]"]
  by (simp add: areEqual.simps num_strict_eq_def object_prototype_members_def)

text \<open>
  A key missing from \<^verbatim>\<open>original\<close> does not always read as \<^verbatim>\<open>undefined\<close>: \<^verbatim>\<open>{valueOf: undefined}\<close>
  and \<^verbatim>\<open>{b: 2}\<close> have one key each, and \<^verbatim>\<open>original["valueOf"]\<close> is the function inherited
  from \<^verbatim>\<open>Object.prototype\<close>, so the two are unequal.
\<close>

theorem missing_key_inherited_counterexample:
  "areEqual True (JObj 1 [(''valueOf'', JUndefined)]) (JObj 2 [(''b'', JNum (Fin 2))]) = False"
  by (simp add: eval_defs)

text \<open>
  C7. For \<^verbatim>\<open>current = {a: [1]}\<close> and \<^verbatim>\<open>original = {a: [1]}\<close> with two distinct arrays,
  \<^verbatim>\<open>getChangedFields\<close> returns \<^verbatim>\<open>{}\<close> with \<^verbatim>\<open>deep: true\<close> and \<^verbatim>\<open>{a: [1]}\<close> with
  \<^verbatim>\<open>deep: false\<close>. In shallow mode two arrays are equal exactly when they have the same
  length and are the same instance; in deep mode exactly when they have the same length
  and are equal element by element.
\<close>

theorem shallow_deep_arrays:
  "getChangedFields (JObj 1 [(''a'', JArr 2 [JNum (Fin 1)])])
     (JObj 3 [(''a'', JArr 4 [JNum (Fin 1)])]) (no_options\<lparr>deep := Some True\<rparr>) = Inr [] \<and>
   getChangedFields (JObj 1 [(''a'', JArr 2 [JNum (Fin 1)])])
     (JObj 3 [(''a'', JArr 4 [JNum (Fin 1)])]) (no_options\<lparr>deep := Some False\<rparr>)
     = Inr [(''a'', JArr 2 [JNum (Fin 1)])] \<and>
   areEqual False (JArr r1 xs) (JArr r2 ys) = (length xs = length ys \<and> r1 = r2) \<and>
   areEqual True (JArr r1 xs) (JArr r2 ys) =
     (length xs = length ys \<and> (\<forall>i<length xs. areEqual True (xs ! i) (ys ! i)))"
proof (intro conjI)
  show "getChangedFields (JObj 1 [(''a'', JArr 2 [JNum (Fin 1)])])
     (JObj 3 [(''a'', JArr 4 [JNum (Fin 1)])]) (no_options\<lparr>deep := Some True\<rparr>) = Inr []"
    by (simp add: eval_defs)
  show "getChangedFields (JObj 1 [(''a'', JArr 2 [JNum (Fin 1)])])
     (JObj 3 [(''a'', JArr 4 [JNum (Fin 1)])]) (no_options\<lparr>deep := Some False\<rparr>)
     = Inr [(''a'', JArr 2 [JNum (Fin 1)])]"
    by (simp add: eval_defs)
  show "areEqual False (JArr r1 xs) (JArr r2 ys) = (length xs = length ys \<and> r1 = r2)"
    by (rule areEqual_arrays_shallow)
  show "areEqual True (JArr r1 xs) (JArr r2 ys) =
     (length xs = length ys \<and> (\<forall>i<length xs. areEqual True (xs ! i) (ys ! i)))"
    by (rule areEqual_arrays_deep)
qed

theorem shallow_deep_arrays_witness:
  "areEqual False (JArr 2 [JNum (Fin 1)]) (JArr 4 [JNum (Fin 1)]) = False \<and>
   areEqual False (JArr 2 [JNum (Fin 1)]) (JArr 2 [JNum (Fin 1)]) = True \<and>
   areEqual True (JArr 2 [JNum (Fin 1)]) (JArr 4 [JNum (Fin 1)]) = True \<and>
   areEqual True (JArr 2 [JNum (Fin 1)]) (JArr 4 [JNum (Fin 2)]) = False"
  using shallow_deep_arrays [of 2 "[JNum (Fin 1)]" 4 "[JNum (Fin 1)]"]
    shallow_deep_arrays [of 2 "[JNum (Fin 1)]" 2 "[JNum (Fin 1)]"]
    shallow_deep_arrays [of 2 "[JNum (Fin 1)]" 4 "[JNum (Fin 2)]"]
  by (simp add: areEqual_numbers num_strict_eq_def)

text \<open>
  C8. Two dates that denote instants are equal exactly when the instants are the same
  number of milliseconds, whether or not they are the same instance, in deep and in
  shallow mode; and in deep mode the same holds for two dates under any nesting of
  arrays and records of the same shape.
\<close>

theorem dates_by_instant:
  "areEqual d (JDate r1 (Fin t1)) (JDate r2 (Fin t2)) = (t1 = t2) \<and>
   (list_all2 same_shape p q \<longrightarrow>
      areEqual True (wrap p (JDate r1 (Fin t1))) (wrap q (JDate r2 (Fin t2))) = (t1 = t2))"
proof -
  have "areEqual d (JDate r1 (Fin t1)) (JDate r2 (Fin t2)) = (t1 = t2)" for d
    by (simp add: areEqual.simps num_strict_eq_def)
  then show ?thesis by (simp add: areEqual_wrap)
qed

theorem dates_by_instant_witness:
  "areEqual False (JDate 1 (Fin 1704067200000)) (JDate 2 (Fin 1704067200000)) = True \<and>
   areEqual True (JDate 1 (Fin 1704067200000)) (JDate 2 (Fin 1704153600000)) = False \<and>
   areEqual True
     (JObj 3 [(''d'', JArr 4 [JDate 1 (Fin 1704067200000)])])
     (JObj 5 [(''d'', JArr 6 [JDate 2 (Fin 1704067200000)])]) = True"
  using dates_by_instant [of False 1 1704067200000 2 1704067200000 "[]" "[]"]
    dates_by_instant [of True 1 1704067200000 2 1704153600000 "[]" "[]"]
    dates_by_instant [of True 1 1704067200000 2 1704067200000
       "[InRecord 3 ''d'', InArray 4]" "[InRecord 5 ''d'', InArray 6]"]
  by simp

text \<open>
  An invalid date has the time value \<^verbatim>\<open>NaN\<close> and denotes no instant: it is equal to no
  date, itself included.
\<close>

lemma invalid_date_never_equal: "areEqual d (JDate r NaN) (JDate r NaN) = False"
  by (simp add: areEqual.simps num_strict_eq_def)

section \<open>The diff is not symmetric\<close>

text \<open>
  C10. With \<^verbatim>\<open>u = {a: 1}\<close> and \<^verbatim>\<open>v = {a: 1, b: 2}\<close> and no options, \<^verbatim>\<open>hasChanges(u, v)\<close> is
  \<^verbatim>\<open>false\<close> and \<^verbatim>\<open>hasChanges(v, u)\<close> is \<^verbatim>\<open>true\<close>. The deep comparison of records is not
  symmetric either: \<^verbatim>\<open>{a: 1, b: undefined}\<close> equals \<^verbatim>\<open>{a: 1, c: 2}\<close>, and not the other
  way round.
\<close>

theorem diff_not_symmetric:
  "hasChanges (JObj 1 [(''a'', JNum (Fin 1))])
     (JObj 2 [(''a'', JNum (Fin 1)), (''b'', JNum (Fin 2))]) no_options = Inr False \<and>
   hasChanges (JObj 2 [(''a'', JNum (Fin 1)), (''b'', JNum (Fin 2))])
     (JObj 1 [(''a'', JNum (Fin 1))]) no_options = Inr True \<and>
   areEqual True (JObj 1 [(''a'', JNum (Fin 1)), (''b'', JUndefined)])
     (JObj 2 [(''a'', JNum (Fin 1)), (''c'', JNum (Fin 2))]) = True \<and>
   areEqual True (JObj 2 [(''a'', JNum (Fin 1)), (''c'', JNum (Fin 2))])
     (JObj 1 [(''a'', JNum (Fin 1)), (''b'', JUndefined)]) = False"
  by (simp add: eval_defs)

theorem diff_not_symmetric_witness:
  "hasChanges (JObj 1 [(''a'', JNum (Fin 1))])
     (JObj 2 [(''a'', JNum (Fin 1)), (''b'', JNum (Fin 2))]) no_options \<noteq>
   hasChanges (JObj 2 [(''a'', JNum (Fin 1)), (''b'', JNum (Fin 2))])
     (JObj 1 [(''a'', JNum (Fin 1))]) no_options"
  using diff_not_symmetric by simp

end
